theory Spec2Isabelle
  imports Complex_Main
begin

section \<open>The random dot field of \<^verbatim>\<open>dot_field.py\<close>\<close>

text \<open>
  The module defines one class, \<^verbatim>\<open>DotField\<close>: a rectangle of \<^verbatim>\<open>width\<close> by
  \<^verbatim>\<open>height\<close> that owns an N-by-2 array of dot positions, drawn once at construction
  and moved by \<^verbatim>\<open>update\<close>. A finite Python float is the real number it denotes.
  The coordinates are computed in exact real arithmetic. The number of dots is
  computed as the doubles compute it, with each product rounded, because there a
  rounding changes a whole number. An N-by-2 array is a list of N pairs, Python's
  unbounded \<^verbatim>\<open>int\<close> is \<open>int\<close>, and an exception is the \<open>Inl\<close> branch of a sum.
\<close>

subsection \<open>Exceptions\<close>

text \<open>
  \<^verbatim>\<open>ValueError\<close> is the explicit \<^verbatim>\<open>raise ValueError(f"Unsupported mode: {mode}")\<close>
  of \<^verbatim>\<open>update\<close>, the one Python raises when the right-hand side of
  \<^verbatim>\<open>dx, dy = ...\<close> does not hold exactly two values, the ones numpy's
  \<^verbatim>\<open>Generator.uniform\<close> raises for a negative range or a negative size, and the one
  \<^verbatim>\<open>int\<close> raises on a NaN. \<^verbatim>\<open>OverflowError\<close> is the one \<^verbatim>\<open>int\<close> raises on an
  infinity. Each constructor carries the message.
\<close>

datatype error = ValueError string | OverflowError string

subsection \<open>The random generator\<close>

text \<open>
  \<^verbatim>\<open>numpy.random.Generator\<close> is a library object, not code of this module. Its state
  is modelled as the sequence of doubles its bit generator will produce
  (\<open>next_double\<close>, each in the half-open unit interval) and the number already
  consumed. \<^verbatim>\<open>uniform(low, high, size)\<close> consumes \<open>size\<close> of them (the argument \<open>sz\<close>) and returns
  \<open>low + (high - low) * u\<close> for each, which is how numpy documents and computes it;
  it rejects a negative range and a negative size.
\<close>

record Generator =
  next_double :: "nat \<Rightarrow> real"
  consumed :: nat

definition uniform ::
  "real \<Rightarrow> real \<Rightarrow> int \<Rightarrow> Generator \<Rightarrow> (error + real list) \<times> Generator" where
  "uniform low high sz g =
     (if high - low < 0 then (Inl (ValueError ''high - low < 0''), g)
      else if sz < 0 then (Inl (ValueError ''negative dimensions are not allowed''), g)
      else (Inr (map (\<lambda>i. low + (high - low) * next_double g i)
                   [consumed g ..< consumed g + nat sz]),
            g\<lparr>consumed := consumed g + nat sz\<rparr>))"

subsection \<open>Double-precision products\<close>

text \<open>
  The number of dots is \<^verbatim>\<open>int(self.width * self.height * self.dot_density)\<close>: two
  multiplications of doubles, each rounded to the nearest double with ties to the even
  significand, and a truncation. The value of such an expression is a finite double,
  an infinity (whose sign plays no part below and is not recorded) or a NaN.
\<close>

datatype pyfloat = Finite real | Infinity | NaN

text \<open>Rounding a real to the nearest integer, a tie going to the even one.\<close>

definition round_even :: "real \<Rightarrow> int" where
  "round_even x =
     (let n = \<lfloor>x\<rfloor>; f = x - of_int n
      in if f < 1 / 2 then n
         else if 1 / 2 < f then n + 1
         else if even n then n else n + 1)"

text \<open>
  Rounding a real to binary64. The exponent of a nonzero \<open>x\<close> is that of its binade,
  or -1022 below the normal range; the significand has 53 bits, so the spacing of
  the doubles around \<open>x\<close> is two to the exponent minus 52, and \<open>x\<close> goes to the nearest
  multiple of it. A result of magnitude \<open>2 ^ 1024\<close> or more is not a finite double:
  \<open>None\<close> stands for the overflow to an infinity.
\<close>

definition round_double :: "real \<Rightarrow> real option" where
  "round_double x =
     (if x = 0 then Some 0
      else
        (let e = max \<lfloor>log 2 \<bar>x\<bar>\<rfloor> (- 1022);
             ulp = 2 powi (e - 52);
             r = of_int (round_even (x / ulp)) * ulp
         in if \<bar>r\<bar> < 2 ^ 1024 then Some r else None))"

text \<open>The product of two floats: IEEE 754 multiplication, signs of infinities aside.\<close>

fun float_mul :: "pyfloat \<Rightarrow> pyfloat \<Rightarrow> pyfloat" where
  "float_mul (Finite x) (Finite y) =
     (case round_double (x * y) of Some r \<Rightarrow> Finite r | None \<Rightarrow> Infinity)"
| "float_mul (Finite x) Infinity = (if x = 0 then NaN else Infinity)"
| "float_mul Infinity (Finite y) = (if y = 0 then NaN else Infinity)"
| "float_mul Infinity Infinity = Infinity"
| "float_mul NaN v = NaN"
| "float_mul v NaN = NaN"

text \<open>Python's \<^verbatim>\<open>int(x)\<close> on a finite float: truncation toward zero.\<close>

definition py_int :: "real \<Rightarrow> int" where
  "py_int x = (if x < 0 then \<lceil>x\<rceil> else \<lfloor>x\<rfloor>)"

text \<open>\<^verbatim>\<open>int(x)\<close> on any float: it raises on an infinity and on a NaN.\<close>

definition int_of_float :: "pyfloat \<Rightarrow> error + int" where
  "int_of_float v =
     (case v of
        Finite x \<Rightarrow> Inr (py_int x)
      | Infinity \<Rightarrow> Inl (OverflowError ''cannot convert float infinity to integer'')
      | NaN \<Rightarrow> Inl (ValueError ''cannot convert float NaN to integer''))"

subsection \<open>Construction\<close>

text \<open>
  Line 54, \<^verbatim>\<open>count = int(self.width * self.height * self.dot_density)\<close>: the product
  associates to the left.
\<close>

definition dot_count :: "real \<Rightarrow> real \<Rightarrow> real \<Rightarrow> error + int" where
  "dot_count w h d = int_of_float (float_mul (float_mul (Finite w) (Finite h)) (Finite d))"

text \<open>\<^verbatim>\<open>np.vstack([x, y]).T\<close>: the two coordinate rows stacked, then transposed, so
  that row \<open>i\<close> of the result is \<open>(x[i], y[i])\<close>.\<close>

definition vstack_T :: "real list \<Rightarrow> real list \<Rightarrow> (real \<times> real) list" where
  "vstack_T x y = zip x y"

record DotField =
  width :: real
  height :: real
  dot_density :: real
  rng :: Generator
  positions :: "(real \<times> real) list"

text \<open>
  \<^verbatim>\<open>_initialize_positions\<close> reads the fields \<^verbatim>\<open>width\<close>, \<^verbatim>\<open>height\<close>,
  \<^verbatim>\<open>dot_density\<close> and \<^verbatim>\<open>rng\<close> of the object under construction (its
  \<^verbatim>\<open>positions\<close> do not exist yet), computes the count, draws all x coordinates,
  then all y coordinates, and returns the array together with the advanced generator.
\<close>

definition initialize_positions ::
  "real \<Rightarrow> real \<Rightarrow> real \<Rightarrow> Generator \<Rightarrow> (error + (real \<times> real) list) \<times> Generator" where
  "initialize_positions w h d g =
     (case dot_count w h d of
        Inl e \<Rightarrow> (Inl e, g)
      | Inr count \<Rightarrow>
          (case uniform 0 w count g of
             (Inl e, g1) \<Rightarrow> (Inl e, g1)
           | (Inr x, g1) \<Rightarrow>
               (case uniform 0 h count g1 of
                  (Inl e, g2) \<Rightarrow> (Inl e, g2)
                | (Inr y, g2) \<Rightarrow> (Inr (vstack_T x y), g2))))"

text \<open>
  \<^verbatim>\<open>__init__\<close>. The argument \<^verbatim>\<open>rng\<close> is optional; \<^verbatim>\<open>rng or np.random.default_rng()\<close>
  keeps a generator that was passed and otherwise takes a freshly seeded one, which
  is the parameter \<open>fresh\<close> here.
\<close>

definition DotField_init ::
  "real \<Rightarrow> real \<Rightarrow> real \<Rightarrow> Generator option \<Rightarrow> Generator \<Rightarrow> error + DotField" where
  "DotField_init w h d rng_arg fresh =
     (let g = (case rng_arg of Some r \<Rightarrow> r | None \<Rightarrow> fresh) in
      case initialize_positions w h d g of
        (Inl e, _) \<Rightarrow> Inl e
      | (Inr p, g') \<Rightarrow>
          Inr \<lparr>width = w, height = h, dot_density = d, rng = g', positions = p\<rparr>)"

subsection \<open>Moving the dots\<close>

text \<open>
  The right-hand side of \<^verbatim>\<open>dx, dy = np.asarray(direction) * speed\<close> is the
  direction scaled componentwise; the assignment unpacks it into exactly two names and
  raises \<^verbatim>\<open>ValueError\<close> for any other number of components.
\<close>

definition scale :: "real list \<Rightarrow> real \<Rightarrow> real list" where
  "scale v k = map (\<lambda>c. c * k) v"

fun unpack2 :: "real list \<Rightarrow> error + real \<times> real" where
  "unpack2 [] = Inl (ValueError ''not enough values to unpack (expected 2, got 0)'')"
| "unpack2 [a] = Inl (ValueError ''not enough values to unpack (expected 2, got 1)'')"
| "unpack2 [a, b] = Inr (a, b)"
| "unpack2 (a # b # c # vs) = Inl (ValueError ''too many values to unpack (expected 2)'')"

text \<open>\<^verbatim>\<open>positions[:, 0] += dx\<close> and \<^verbatim>\<open>positions[:, 1] += dy\<close>: one column at a time.\<close>

definition add_column0 :: "real \<Rightarrow> (real \<times> real) list \<Rightarrow> (real \<times> real) list" where
  "add_column0 dx ps = map (\<lambda>(x, y). (x + dx, y)) ps"

definition add_column1 :: "real \<Rightarrow> (real \<times> real) list \<Rightarrow> (real \<times> real) list" where
  "add_column1 dy ps = map (\<lambda>(x, y). (x, y + dy)) ps"

text \<open>
  The rotation branch works on whole arrays: it subtracts the centre from every row,
  multiplies the rows by the transpose of a 2-by-2 matrix, and adds the centre back.
  A matrix is the pair of its rows.
\<close>

type_synonym vec2 = "real \<times> real"
type_synonym mat2 = "vec2 \<times> vec2"

definition transpose2 :: "mat2 \<Rightarrow> mat2" where
  "transpose2 m = (case m of ((a, b), (c, d)) \<Rightarrow> ((a, c), (b, d)))"

definition row_times :: "vec2 \<Rightarrow> mat2 \<Rightarrow> vec2" where
  "row_times v m =
     (case (v, m) of ((x, y), ((a, b), (c, d))) \<Rightarrow> (x * a + y * c, x * b + y * d))"

definition matmul :: "vec2 list \<Rightarrow> mat2 \<Rightarrow> vec2 list" where
  "matmul rows m = map (\<lambda>v. row_times v m) rows"

definition sub_row :: "vec2 list \<Rightarrow> vec2 \<Rightarrow> vec2 list" where
  "sub_row rows c = map (\<lambda>(x, y). (x - fst c, y - snd c)) rows"

definition add_row :: "vec2 list \<Rightarrow> vec2 \<Rightarrow> vec2 list" where
  "add_row rows c = map (\<lambda>(x, y). (x + fst c, y + snd c)) rows"

text \<open>
  \<^verbatim>\<open>update(mode, direction, speed)\<close> returns a copy of the new positions and leaves
  the object changed; the model returns the result (or the exception) together with the
  object as the call leaves it. Both raising paths are reached before any assignment
  to \<^verbatim>\<open>self.positions\<close>.
\<close>

definition update ::
  "string \<Rightarrow> real list \<Rightarrow> real \<Rightarrow> DotField \<Rightarrow> (error + vec2 list) \<times> DotField" where
  "update mode direction speed self =
     (if mode = ''translation'' then
        (case unpack2 (scale direction speed) of
           Inl e \<Rightarrow> (Inl e, self)
         | Inr (dx, dy) \<Rightarrow>
             (let self1 = self\<lparr>positions := add_column0 dx (positions self)\<rparr>;
                  self2 = self1\<lparr>positions := add_column1 dy (positions self1)\<rparr>
              in (Inr (positions self2), self2)))
      else if mode \<in> {''cw'', ''ccw''} then
        (let angle = (if mode = ''ccw'' then speed else - speed);
             cx = width self / 2;
             cy = height self / 2;
             shifted = sub_row (positions self) (cx, cy);
             cos_a = cos angle;
             sin_a = sin angle;
             rot_matrix = ((cos_a, - sin_a), (sin_a, cos_a));
             rotated = matmul shifted (transpose2 rot_matrix);
             self1 = self\<lparr>positions := add_row rotated (cx, cy)\<rparr>
         in (Inr (positions self1), self1))
      else (Inl (ValueError (''Unsupported mode: '' @ mode)), self))"

text \<open>The defaults of \<^verbatim>\<open>update\<close>: \<^verbatim>\<open>direction=(1, 0)\<close> and \<^verbatim>\<open>speed=1.0\<close>.\<close>

definition default_direction :: "real list" where
  "default_direction = [1, 0]"

definition default_speed :: real where
  "default_speed = 1"

text \<open>
  A caller's sequence of \<^verbatim>\<open>update\<close> calls on one object, each given by its
  three arguments. A call that raises is caught by the caller, and the next call
  finds the object as the failed one left it.
\<close>

fun run_updates :: "(string \<times> real list \<times> real) list \<Rightarrow> DotField \<Rightarrow> DotField" where
  "run_updates [] self = self"
| "run_updates ((mode, direction, speed) # calls) self =
     run_updates calls (snd (update mode direction speed self))"

subsection \<open>The rotation as the specification writes it\<close>

text \<open>
  The specification gives the rotation about the centre \<open>(cx, cy)\<close> by the angle \<open>a\<close>
  in coordinates: \<open>x' = cx + (x - cx) cos a - (y - cy) sin a\<close> and
  \<open>y' = cy + (x - cx) sin a + (y - cy) cos a\<close>. This definition follows those words,
  to be compared with what \<open>update\<close> computes.
\<close>

definition spec_rotate :: "real \<Rightarrow> real \<Rightarrow> real \<Rightarrow> vec2 \<Rightarrow> vec2" where
  "spec_rotate cx cy a p =
     (case p of (x, y) \<Rightarrow>
        (cx + (x - cx) * cos a - (y - cy) * sin a,
         cy + (x - cx) * sin a + (y - cy) * cos a))"

text \<open>The distance of a dot from the centre of the field.\<close>

definition center_distance :: "DotField \<Rightarrow> vec2 \<Rightarrow> real" where
  "center_distance self p =
     sqrt ((fst p - width self / 2)\<^sup>2 + (snd p - height self / 2)\<^sup>2)"

subsection \<open>Concrete objects\<close>

text \<open>
  A generator whose doubles are \<open>1/2, 1/3, 1/4, ...\<close>, the field it gives for a
  2-by-3 rectangle at density one half (three dots), and the field it gives for a unit
  square at density one half (no dot). The last field is \<^verbatim>\<open>DotField(3, 1, 1/3)\<close>:
  \<open>third\<close> is the double nearest to one third, three times it is \<open>1 - 2 ^ -54\<close>
  exactly, which rounds to one, so the field has one dot where the exact product
  would give none.
\<close>

definition example_rng :: Generator where
  "example_rng = \<lparr>next_double = (\<lambda>i. 1 / (real i + 2)), consumed = 0\<rparr>"

definition example_field :: DotField where
  "example_field =
     \<lparr>width = 2, height = 3, dot_density = 1 / 2,
      rng = example_rng\<lparr>consumed := 6\<rparr>,
      positions = [(1, 3 / 5), (2 / 3, 1 / 2), (1 / 2, 3 / 7)]\<rparr>"

definition empty_field :: DotField where
  "empty_field =
     \<lparr>width = 1, height = 1, dot_density = 1 / 2,
      rng = example_rng, positions = []\<rparr>"

definition third :: real where
  "third = 6004799503160661 / 2 ^ 54"

definition third_field :: DotField where
  "third_field =
     \<lparr>width = 3, height = 1, dot_density = third,
      rng = example_rng\<lparr>consumed := 2\<rparr>,
      positions = [(3 / 2, 1 / 3)]\<rparr>"

section \<open>Auxiliary facts\<close>

lemma py_int_nonneg: "0 \<le> x \<Longrightarrow> py_int x = \<lfloor>x\<rfloor>"
  by (simp add: py_int_def)

lemma round_even_nonneg: "0 \<le> x \<Longrightarrow> 0 \<le> round_even x"
  by (auto simp add: round_even_def Let_def)

lemma round_double_nonneg:
  assumes "0 \<le> x" and "round_double x = Some r"
  shows "0 \<le> r"
proof (cases "x = 0")
  case True
  with assms show ?thesis by (simp add: round_double_def)
next
  case False
  define ulp :: real where "ulp = 2 powi (max \<lfloor>log 2 \<bar>x\<bar>\<rfloor> (- 1022) - 52)"
  have "0 < ulp" by (simp add: ulp_def)
  then have "0 \<le> x / ulp" using assms(1) by simp
  then have "0 \<le> round_even (x / ulp)" by (rule round_even_nonneg)
  then have "0 \<le> of_int (round_even (x / ulp)) * ulp"
    using \<open>0 < ulp\<close> by simp
  moreover have "r = of_int (round_even (x / ulp)) * ulp"
    using assms(2) False by (simp add: round_double_def Let_def ulp_def split: if_splits)
  ultimately show ?thesis by simp
qed

lemma float_mul_Finite:
  assumes "float_mul u v = Finite r"
  shows "\<exists>x y. u = Finite x \<and> v = Finite y \<and> round_double (x * y) = Some r"
  using assms
  by (cases u; cases v) (auto split: option.splits if_splits)

lemma float_product_nonneg:
  assumes "0 \<le> w" and "0 \<le> h" and "0 \<le> d"
    and "float_mul (float_mul (Finite w) (Finite h)) (Finite d) = Finite q"
  shows "0 \<le> q"
proof -
  obtain p where p: "float_mul (Finite w) (Finite h) = Finite p"
    and q: "round_double (p * d) = Some q"
    using float_mul_Finite [OF assms(4)] by auto
  have "round_double (w * h) = Some p"
    using float_mul_Finite [OF p] by auto
  then have "0 \<le> p"
    using assms(1,2) round_double_nonneg [of "w * h" p] by simp
  then show ?thesis
    using assms(3) q round_double_nonneg [of "p * d" q] by simp
qed

lemma powi_ulp: "e \<le> 52 \<Longrightarrow> (2::real) powi (e - 52) = 1 / 2 ^ nat (52 - e)"
proof -
  assume "e \<le> 52"
  then have "(2::real) powi (e - 52) = 2 powi (- int (nat (52 - e)))"
    by simp
  also have "\<dots> = 1 / 2 ^ nat (52 - e)"
    by (simp only: power_int_minus power_int_of_nat inverse_eq_divide)
  finally show ?thesis .
qed

lemma round_doubleI:
  assumes "0 < x" and "2 powr e \<le> x" and "x < 2 powr (e + 1)"
    and "- 1022 \<le> e" and "e \<le> 52"
    and "round_even (x * 2 ^ nat (52 - e)) = n"
    and "\<bar>real_of_int n / 2 ^ nat (52 - e)\<bar> < 2 ^ 1024"
  shows "round_double x = Some (of_int n / 2 ^ nat (52 - e))"
proof -
  have "\<lfloor>log 2 x\<rfloor> = e"
    using assms(1,2,3) by (simp add: floor_log_eq_powr_iff)
  then have e: "max \<lfloor>log 2 \<bar>x\<bar>\<rfloor> (- 1022) = e"
    using assms(1,4) by simp
  have ulp: "(2::real) powi (e - 52) = 1 / 2 ^ nat (52 - e)"
    using assms(5) by (rule powi_ulp)
  have r: "of_int (round_even (x / (1 / 2 ^ nat (52 - e)))) * (1 / 2 ^ nat (52 - e))
             = real_of_int n / 2 ^ nat (52 - e)"
    using assms(6) by simp
  have "round_double x =
          (if \<bar>real_of_int n / 2 ^ nat (52 - e)\<bar> < 2 ^ 1024
           then Some (real_of_int n / 2 ^ nat (52 - e)) else None)"
    unfolding round_double_def Let_def e ulp r using assms(1) by simp
  then show ?thesis
    using assms(7) by simp
qed

lemma round_double_1: "round_double 1 = Some 1"
  using round_doubleI [of 1 0 "2 ^ 52"]
  by (simp add: round_even_def)

lemma round_double_3: "round_double 3 = Some 3"
  using round_doubleI [of 3 1 "3 * 2 ^ 51"]
  by (simp add: round_even_def)

lemma round_double_6: "round_double 6 = Some 6"
  using round_doubleI [of 6 2 "6 * 2 ^ 50"]
  by (simp add: round_even_def)

lemma round_double_half: "round_double (1 / 2) = Some (1 / 2)"
  using round_doubleI [of "1 / 2" "- 1" "2 ^ 52"]
  by (simp add: round_even_def powr_minus)

lemma round_double_three_thirds:
  "round_double (18014398509481983 / 18014398509481984) = Some 1"
  using round_doubleI [of "18014398509481983 / 18014398509481984" "- 1" "2 ^ 53"]
  by (simp add: round_even_def powr_minus)

lemma dot_count_example: "dot_count 2 3 (1 / 2) = Inr 3"
  by (simp add: dot_count_def int_of_float_def round_double_6 round_double_3 py_int_def)

lemma dot_count_empty: "dot_count 1 1 (1 / 2) = Inr 0"
  by (simp add: dot_count_def int_of_float_def round_double_1 round_double_half py_int_def)

lemma product_third:
  "float_mul (float_mul (Finite 3) (Finite 1)) (Finite third) = Finite 1"
  by (simp add: third_def round_double_3 round_double_three_thirds)

lemma dot_count_third: "dot_count 3 1 third = Inr 1"
  unfolding dot_count_def product_third by (simp add: int_of_float_def py_int_def)

lemma uniform_ok:
  "low \<le> high \<Longrightarrow> 0 \<le> sz \<Longrightarrow>
   uniform low high sz g =
     (Inr (map (\<lambda>i. low + (high - low) * next_double g i)
             [consumed g ..< consumed g + nat sz]),
      g\<lparr>consumed := consumed g + nat sz\<rparr>)"
  by (simp add: uniform_def)

lemma initialize_positions_ok:
  assumes "0 \<le> w" "0 \<le> h" "dot_count w h d = Inr c" "0 \<le> c"
  shows "initialize_positions w h d g =
     (Inr (zip (map (\<lambda>i. w * next_double g i) [consumed g ..< consumed g + nat c])
               (map (\<lambda>i. h * next_double g i)
                 [consumed g + nat c ..< consumed g + nat c + nat c])),
      g\<lparr>consumed := consumed g + nat c + nat c\<rparr>)"
  using assms by (simp add: initialize_positions_def uniform_ok vstack_T_def)

lemma initialize_positions_fails:
  assumes "w < 0 \<or> h < 0 \<or> isl (dot_count w h d) \<or> (\<exists>c < 0. dot_count w h d = Inr c)"
  shows "isl (fst (initialize_positions w h d g))"
  using assms
  by (cases "dot_count w h d") (auto simp add: initialize_positions_def uniform_def)

lemma DotField_init_ok:
  assumes "0 \<le> w" "0 \<le> h" "dot_count w h d = Inr c" "0 \<le> c"
    and "g = (case rng_arg of Some r \<Rightarrow> r | None \<Rightarrow> fresh)"
    and "n = nat c"
  shows "DotField_init w h d rng_arg fresh =
     Inr \<lparr>width = w, height = h, dot_density = d,
          rng = g\<lparr>consumed := consumed g + n + n\<rparr>,
          positions =
            zip (map (\<lambda>i. w * next_double g i) [consumed g ..< consumed g + n])
                (map (\<lambda>i. h * next_double g i) [consumed g + n ..< consumed g + n + n])\<rparr>"
  using assms by (simp add: DotField_init_def initialize_positions_ok Let_def)

lemma DotField_init_fails:
  assumes "w < 0 \<or> h < 0 \<or> isl (dot_count w h d) \<or> (\<exists>c < 0. dot_count w h d = Inr c)"
  shows "isl (DotField_init w h d rng_arg fresh)"
proof -
  have "isl (fst (initialize_positions w h d
          (case rng_arg of Some r \<Rightarrow> r | None \<Rightarrow> fresh)))"
    using assms by (rule initialize_positions_fails)
  then show ?thesis
    by (auto simp add: DotField_init_def Let_def split: prod.splits sum.splits)
qed

lemma DotField_init_Inr:
  assumes "DotField_init w h d rng_arg fresh = Inr self"
  obtains c where "0 \<le> w" and "0 \<le> h" and "dot_count w h d = Inr c" and "0 \<le> c"
proof -
  have nofail: "\<not> (w < 0 \<or> h < 0 \<or> isl (dot_count w h d) \<or> (\<exists>c < 0. dot_count w h d = Inr c))"
    using DotField_init_fails [of w h d rng_arg fresh] assms by auto
  then obtain c where c: "dot_count w h d = Inr c"
    by (cases "dot_count w h d") auto
  with nofail have "0 \<le> c" by auto
  with nofail c that show ?thesis by auto
qed

lemma example_init:
  "DotField_init 2 3 (1 / 2) (Some example_rng) fresh = Inr example_field"
  using DotField_init_ok [where w = 2 and h = 3 and d = "1 / 2" and c = 3 and g = example_rng
      and rng_arg = "Some example_rng" and fresh = fresh and n = 3]
  by (simp add: dot_count_example example_field_def example_rng_def upt_conv_Cons)

lemma empty_init:
  "DotField_init 1 1 (1 / 2) None example_rng = Inr empty_field"
  using DotField_init_ok [where w = 1 and h = 1 and d = "1 / 2" and c = 0 and g = example_rng
      and rng_arg = None and fresh = example_rng and n = 0]
  by (simp add: dot_count_empty empty_field_def example_rng_def)

lemma third_init:
  "DotField_init 3 1 third (Some example_rng) fresh = Inr third_field"
  using DotField_init_ok [where w = 3 and h = 1 and d = third and c = 1 and g = example_rng
      and rng_arg = "Some example_rng" and fresh = fresh and n = 1]
  by (simp add: dot_count_third third_field_def example_rng_def)

lemma round_double_30000: "round_double 30000 = Some 30000"
  using round_doubleI [of 30000 14 "30000 * 2 ^ 38"]
  by (simp add: round_even_def)

lemma round_double_demo:
  "round_double (30000 * (5764607523034235 / 2 ^ 59)) = Some 300"
  using round_doubleI [of "30000 * (5764607523034235 / 2 ^ 59)" 8 "300 * 2 ^ 44"]
  by (simp add: round_even_def)

lemma dot_count_demo: "dot_count 200 150 (5764607523034235 / 2 ^ 59) = Inr 300"
  using round_double_30000 round_double_demo
  by (simp add: dot_count_def int_of_float_def py_int_def)

lemma dot_count_floor_zero:
  assumes "float_mul (float_mul (Finite w) (Finite h)) (Finite d) = Finite q"
    and "\<lfloor>q\<rfloor> = 0"
  shows "dot_count w h d = Inr 0"
proof -
  have "0 \<le> q" using assms(2) by linarith
  then show ?thesis
    using assms by (simp add: dot_count_def int_of_float_def py_int_nonneg)
qed

lemma update_translation:
  "update ''translation'' [a, b] s self =
     (Inr (map (\<lambda>(x, y). (x + a * s, y + b * s)) (positions self)),
      self\<lparr>positions := map (\<lambda>(x, y). (x + a * s, y + b * s)) (positions self)\<rparr>)"
  by (simp add: update_def scale_def add_column0_def add_column1_def Let_def case_prod_unfold comp_def)

lemma rotate_row:
  "(\<lambda>(x, y). (x + cx, y + cy)) (row_times ((\<lambda>(x, y). (x - cx, y - cy)) p)
      (transpose2 ((cos a, - sin a), (sin a, cos a)))) = spec_rotate cx cy a p"
  by (cases p) (simp add: row_times_def transpose2_def spec_rotate_def algebra_simps)

lemma rotate_rows:
  "add_row (matmul (sub_row ps (cx, cy)) (transpose2 ((cos a, - sin a), (sin a, cos a)))) (cx, cy)
     = map (spec_rotate cx cy a) ps"
  using rotate_row [of cx cy _ a]
  by (simp add: add_row_def matmul_def sub_row_def comp_def)

lemma update_ccw:
  "update ''ccw'' d s self =
     (Inr (map (spec_rotate (width self / 2) (height self / 2) s) (positions self)),
      self\<lparr>positions := map (spec_rotate (width self / 2) (height self / 2) s) (positions self)\<rparr>)"
  by (simp add: update_def Let_def rotate_rows)

lemma update_cw:
  "update ''cw'' d s self =
     (Inr (map (spec_rotate (width self / 2) (height self / 2) (- s)) (positions self)),
      self\<lparr>positions := map (spec_rotate (width self / 2) (height self / 2) (- s)) (positions self)\<rparr>)"
  using rotate_rows [of "positions self" "width self / 2" "height self / 2" "- s"]
  by (simp add: update_def Let_def)

lemma update_unsupported:
  "mode \<notin> {''translation'', ''cw'', ''ccw''} \<Longrightarrow>
   update mode d s self = (Inl (ValueError (''Unsupported mode: '' @ mode)), self)"
  by (simp add: update_def)

lemma unpack2_isl: "isl (unpack2 v) \<longleftrightarrow> length v \<noteq> 2"
  by (induction v rule: unpack2.induct) simp_all

lemma spec_rotate_inverse: "spec_rotate cx cy (- a) (spec_rotate cx cy a p) = p"
proof (cases p)
  case (Pair x y)
  have sc: "sin a * sin a + cos a * cos a = 1"
    using sin_cos_squared_add [of a] by (simp add: power2_eq_square)
  have "(x - cx) * (cos a * cos a) + (x - cx) * (sin a * sin a) = x - cx"
    using sc by (metis add.commute distrib_left mult.right_neutral)
  moreover have "(y - cy) * (cos a * cos a) + (y - cy) * (sin a * sin a) = y - cy"
    using sc by (metis add.commute distrib_left mult.right_neutral)
  ultimately show ?thesis
    using Pair by (simp add: spec_rotate_def algebra_simps)
qed

lemma lagrange2:
  "(u * c - v * s)\<^sup>2 + (u * s + v * c)\<^sup>2 = (u\<^sup>2 + v\<^sup>2) * (s\<^sup>2 + (c::real)\<^sup>2)"
  by (simp add: power2_eq_square algebra_simps)

lemma rotation_norm:
  "(u * cos a - v * sin a)\<^sup>2 + (u * sin a + v * cos a)\<^sup>2 = u\<^sup>2 + (v::real)\<^sup>2"
  using lagrange2 [of u "cos a" v "sin a"] by simp

lemma spec_rotate_distance:
  "(fst (spec_rotate cx cy a p) - cx)\<^sup>2 + (snd (spec_rotate cx cy a p) - cy)\<^sup>2
     = (fst p - cx)\<^sup>2 + (snd p - cy)\<^sup>2"
proof (cases p)
  case (Pair x y)
  have "fst (spec_rotate cx cy a p) - cx = (x - cx) * cos a - (y - cy) * sin a"
    using Pair by (simp add: spec_rotate_def)
  moreover have "snd (spec_rotate cx cy a p) - cy = (x - cx) * sin a + (y - cy) * cos a"
    using Pair by (simp add: spec_rotate_def)
  ultimately show ?thesis
    using Pair rotation_norm [of "x - cx" a "y - cy"] by simp
qed

lemma update_unpack_fails:
  "length d \<noteq> 2 \<Longrightarrow> \<exists>e. update ''translation'' d s self = (Inl e, self)"
proof -
  assume "length d \<noteq> 2"
  then have "isl (unpack2 (scale d s))"
    by (simp add: unpack2_isl scale_def)
  then obtain e where "unpack2 (scale d s) = Inl e"
    by (cases "unpack2 (scale d s)") simp_all
  then show ?thesis
    by (simp add: update_def)
qed

lemma length2: "length d = 2 \<Longrightarrow> \<exists>a b. d = [a, b]"
  by (cases d; cases "tl d") auto

lemma update_isl:
  "isl (fst (update mode d s self)) \<longleftrightarrow>
     (mode = ''translation'' \<and> length d \<noteq> 2) \<or> mode \<notin> {''translation'', ''cw'', ''ccw''}"
proof (cases "mode = ''translation''")
  case True
  show ?thesis
  proof (cases "length d = 2")
    case True
    then obtain a b where "d = [a, b]"
      using length2 by blast
    with \<open>mode = ''translation''\<close> show ?thesis
      by (simp add: update_translation)
  next
    case False
    then obtain e where "update ''translation'' d s self = (Inl e, self)"
      using update_unpack_fails [of d s self] by blast
    with False \<open>mode = ''translation''\<close> show ?thesis
      by simp
  qed
next
  case False
  then consider "mode = ''cw''" | "mode = ''ccw''" | "mode \<notin> {''translation'', ''cw'', ''ccw''}"
    by blast
  then show ?thesis
  proof cases
    case 1 then show ?thesis by (simp add: update_cw)
  next
    case 2 then show ?thesis by (simp add: update_ccw)
  next
    case 3 then show ?thesis by (simp add: update_unsupported)
  qed
qed

lemma update_failure_atomic:
  "isl (fst (update mode d s self)) \<Longrightarrow> snd (update mode d s self) = self"
proof -
  assume f: "isl (fst (update mode d s self))"
  then consider "mode = ''translation'' \<and> length d \<noteq> 2" | "mode \<notin> {''translation'', ''cw'', ''ccw''}"
    using update_isl [of mode d s self] by blast
  then show ?thesis
  proof cases
    case 1
    then obtain e where "update ''translation'' d s self = (Inl e, self)"
      using update_unpack_fails [of d s self] by blast
    with 1 show ?thesis by simp
  next
    case 2 then show ?thesis by (simp add: update_unsupported)
  qed
qed

lemma update_frame:
  "length (positions (snd (update mode d s self))) = length (positions self)
   \<and> width (snd (update mode d s self)) = width self
   \<and> height (snd (update mode d s self)) = height self"
proof (cases "isl (fst (update mode d s self))")
  case True
  then show ?thesis by (simp add: update_failure_atomic)
next
  case False
  then consider "mode = ''translation'' \<and> length d = 2" | "mode = ''cw''" | "mode = ''ccw''"
    using update_isl [of mode d s self] by blast
  then show ?thesis
  proof cases
    case 1
    then obtain a b where "d = [a, b]" using length2 by blast
    with 1 show ?thesis by (simp add: update_translation)
  next
    case 2 then show ?thesis by (simp add: update_cw)
  next
    case 3 then show ?thesis by (simp add: update_ccw)
  qed
qed

section \<open>Construction\<close>

text \<open>
  Claim C1. For every width \<open>w > 0\<close>, height \<open>h > 0\<close> and density \<open>d\<close> in \<open>[0, 1]\<close>
  whose floating-point product \<open>(w * h) * d\<close> is a finite double \<open>q\<close>, construction
  succeeds, whichever generator is passed or created, and the new field has exactly
  \<open>floor q\<close> positions. The product \<open>q\<close> is non-negative, so Python's truncation
  toward zero and the floor agree on it.
\<close>

theorem count_invariant:
  assumes "0 < w" and "0 < h" and "0 \<le> d" and "d \<le> 1"
    and "float_mul (float_mul (Finite w) (Finite h)) (Finite d) = Finite q"
  shows "\<exists>self. DotField_init w h d rng_arg fresh = Inr self
           \<and> int (length (positions self)) = \<lfloor>q\<rfloor>
           \<and> py_int q = \<lfloor>q\<rfloor>
           \<and> 0 \<le> q"
proof -
  have nonneg: "0 \<le> q"
    using assms by (intro float_product_nonneg [of w h d q]) simp_all
  then have trunc: "py_int q = \<lfloor>q\<rfloor>"
    by (rule py_int_nonneg)
  have count: "dot_count w h d = Inr \<lfloor>q\<rfloor>"
    using assms(5) trunc by (simp add: dot_count_def int_of_float_def)
  have floor: "0 \<le> \<lfloor>q\<rfloor>"
    using nonneg by simp
  have "0 \<le> w" and "0 \<le> h"
    using assms(1,2) by simp_all
  then show ?thesis
    using nonneg trunc floor DotField_init_ok [OF _ _ count floor refl refl, of rng_arg fresh]
    by simp
qed

text \<open>
  At \<^verbatim>\<open>DotField(3, 1, 1/3)\<close> the double product is one and the field has one dot,
  while the floor of the exact product is zero.
\<close>

theorem count_invariant_witness:
  "float_mul (float_mul (Finite 3) (Finite 1)) (Finite third) = Finite 1
     \<and> DotField_init 3 1 third (Some example_rng) example_rng = Inr third_field
     \<and> int (length (positions third_field)) = \<lfloor>1 :: real\<rfloor>
     \<and> \<lfloor>3 * 1 * third\<rfloor> = 0"
proof -
  have d: "0 \<le> third" "third \<le> 1"
    by (simp_all add: third_def)
  have exact: "\<lfloor>3 * 1 * third\<rfloor> = 0"
    by (simp add: third_def)
  have w: "(0::real) < 3" and h: "(0::real) < 1"
    by simp_all
  obtain self where init: "DotField_init 3 1 third (Some example_rng) example_rng = Inr self"
    and len: "int (length (positions self)) = \<lfloor>1 :: real\<rfloor>"
    using count_invariant [OF w h d product_third, of "Some example_rng" example_rng]
    by blast
  have "self = third_field"
    using init by (simp add: third_init)
  then have "int (length (positions third_field)) = \<lfloor>1 :: real\<rfloor>"
    using len by simp
  then show ?thesis
    using product_third third_init exact by simp
qed

text \<open>
  Claim C2. For a field constructed with \<open>w > 0\<close> and \<open>h > 0\<close> from a generator whose
  doubles lie in the half-open unit interval, every initial position \<open>(x, y)\<close> has
  \<open>0 \<le> x < w\<close> and \<open>0 \<le> y < h\<close>. The coordinates are drawn per axis, all x first and
  then all y, each as \<open>low + (high - low) * u\<close> for the next double \<open>u\<close> of the
  generator, and dot \<open>i\<close> pairs the \<open>i\<close>-th x with the \<open>i\<close>-th y.
\<close>

theorem bounds_at_init:
  assumes "0 < w" and "0 < h"
    and "g = (case rng_arg of Some r \<Rightarrow> r | None \<Rightarrow> fresh)"
    and "\<forall>i. 0 \<le> next_double g i \<and> next_double g i < 1"
    and "DotField_init w h d rng_arg fresh = Inr self"
  shows "(\<forall>p \<in> set (positions self). 0 \<le> fst p \<and> fst p < w \<and> 0 \<le> snd p \<and> snd p < h)
       \<and> (\<forall>i < length (positions self).
             positions self ! i =
               (0 + (w - 0) * next_double g (consumed g + i),
                0 + (h - 0) * next_double g (consumed g + length (positions self) + i)))"
proof -
  obtain c where wh: "0 \<le> w" "0 \<le> h" and c: "dot_count w h d = Inr c" "0 \<le> c"
    using assms(5) by (rule DotField_init_Inr)
  let ?n = "nat c"
  let ?xs = "map (\<lambda>i. w * next_double g i) [consumed g ..< consumed g + ?n]"
  let ?ys = "map (\<lambda>i. h * next_double g i) [consumed g + ?n ..< consumed g + ?n + ?n]"
  have pos: "positions self = zip ?xs ?ys"
    using assms(5) DotField_init_ok [OF wh c assms(3) refl]
    by auto
  have len: "length (positions self) = ?n"
    by (simp add: pos)
  have xs: "\<forall>x \<in> set ?xs. 0 \<le> x \<and> x < w"
    using assms(1,4) by (auto simp add: mult_less_cancel_left2)
  have ys: "\<forall>y \<in> set ?ys. 0 \<le> y \<and> y < h"
    using assms(2,4) by (auto simp add: mult_less_cancel_left2)
  have bounds: "\<forall>p \<in> set (positions self). 0 \<le> fst p \<and> fst p < w \<and> 0 \<le> snd p \<and> snd p < h"
  proof
    fix p assume "p \<in> set (positions self)"
    then have "fst p \<in> set ?xs" and "snd p \<in> set ?ys"
      unfolding pos by (metis in_set_zipE prod.collapse)+
    then show "0 \<le> fst p \<and> fst p < w \<and> 0 \<le> snd p \<and> snd p < h"
      using xs ys by blast
  qed
  have pairs: "\<forall>i < length (positions self).
             positions self ! i =
               (0 + (w - 0) * next_double g (consumed g + i),
                0 + (h - 0) * next_double g (consumed g + length (positions self) + i))"
    unfolding len by (simp add: pos)
  show ?thesis
    using bounds pairs by blast
qed

theorem bounds_at_init_witness:
  "DotField_init 2 3 (1 / 2) (Some example_rng) example_rng = Inr example_field
     \<and> list_all (\<lambda>p. 0 \<le> fst p \<and> fst p < 2 \<and> 0 \<le> snd p \<and> snd p < 3) (positions example_field)
     \<and> positions example_field ! 1 = (2 * next_double example_rng 1, 3 * next_double example_rng 4)"
proof -
  have init: "DotField_init 2 3 (1 / 2) (Some example_rng) example_rng = Inr example_field"
    by (rule example_init)
  have unit: "\<forall>i. 0 \<le> next_double example_rng i \<and> next_double example_rng i < 1"
    by (simp add: example_rng_def)
  have len: "length (positions example_field) = 3" and c: "consumed example_rng = 0"
    by (simp_all add: example_field_def example_rng_def)
  from bounds_at_init [where w = 2 and h = 3 and g = example_rng and rng_arg = "Some example_rng"
      and fresh = example_rng and d = "1 / 2" and self = example_field]
    init unit
  have b: "\<forall>p \<in> set (positions example_field). 0 \<le> fst p \<and> fst p < 2 \<and> 0 \<le> snd p \<and> snd p < 3"
    and q: "\<forall>i < length (positions example_field).
             positions example_field ! i =
               (0 + (2 - 0) * next_double example_rng (consumed example_rng + i),
                0 + (3 - 0) * next_double example_rng
                   (consumed example_rng + length (positions example_field) + i))"
    by simp_all
  from q have "positions example_field ! 1 = (2 * next_double example_rng 1, 3 * next_double example_rng 4)"
    by (simp add: len c)
  with init b show ?thesis
    by (simp add: list_all_iff)
qed

section \<open>Updates\<close>

text \<open>
  Claim C3. For every mode string other than \<open>translation\<close>, \<open>cw\<close> and \<open>ccw\<close>,
  whatever the direction and the speed, \<open>update\<close> raises the \<open>ValueError\<close> whose
  message is \<open>Unsupported mode: \<close> followed by the mode, and the field is exactly as
  before the call. This is the only error condition: with a direction of two
  components, as the interface has it, \<open>update\<close> raises if and only if the mode is
  none of the three.
\<close>

theorem unsupported_mode:
  "(mode \<notin> {''translation'', ''cw'', ''ccw''} \<longrightarrow>
      update mode direction speed self
        = (Inl (ValueError (''Unsupported mode: '' @ mode)), self))
   \<and> (isl (fst (update mode [a, b] speed self))
        \<longleftrightarrow> mode \<notin> {''translation'', ''cw'', ''ccw''})"
proof -
  have "mode \<notin> {''translation'', ''cw'', ''ccw''} \<longrightarrow>
      update mode direction speed self
        = (Inl (ValueError (''Unsupported mode: '' @ mode)), self)"
    using update_unsupported [of mode direction speed self] by blast
  moreover have "isl (fst (update mode [a, b] speed self))
        \<longleftrightarrow> mode \<notin> {''translation'', ''cw'', ''ccw''}"
    using update_isl [of mode "[a, b]" speed self] by simp
  ultimately show ?thesis
    by blast
qed

theorem unsupported_mode_witness:
  "update ''diagonal'' default_direction default_speed example_field
      = (Inl (ValueError ''Unsupported mode: diagonal''), example_field)
   \<and> isl (fst (update ''diagonal'' [1, 0] default_speed example_field))
   \<and> \<not> isl (fst (update ''translation'' [1, 0] default_speed example_field))"
  using unsupported_mode [of "''diagonal''" default_direction default_speed example_field 1 0]
    unsupported_mode [of "''translation''" default_direction default_speed example_field 1 0]
  by simp

text \<open>
  Claim C4. For every field, every two-component direction \<open>(a, b)\<close> and every
  speed \<open>s\<close>, a translation sets \<open>(dx, dy) = (a * s, b * s)\<close>, maps every position
  \<open>(x, y)\<close> to \<open>(x + dx, y + dy)\<close>, returns the new positions, and changes nothing
  else. Nothing wraps or clamps: moving the example field by five along \<open>(1, 0)\<close>
  leaves a dot to the right of the field's width.
\<close>

theorem translation_moves_every_dot:
  "(let dx = a * s; dy = b * s;
        moved = map (\<lambda>(x, y). (x + dx, y + dy)) (positions self)
    in update ''translation'' [a, b] s self = (Inr moved, self\<lparr>positions := moved\<rparr>))
   \<and> (\<exists>p \<in> set (positions (snd (update ''translation'' [1, 0] 5 example_field))).
         width example_field < fst p)"
  by (simp add: update_translation Let_def example_field_def)

text \<open>
  Claim C5. For every field and speed, mode \<open>ccw\<close> maps every position through the
  specification's rotation about \<open>(width / 2, height / 2)\<close> by the angle \<open>speed\<close>,
  mode \<open>cw\<close> through the same formula with the angle \<open>- speed\<close>, and so \<open>cw\<close> at
  a speed is \<open>ccw\<close> at the negated speed. The direction is ignored.
\<close>

theorem rotation_formula:
  "(let cx = width self / 2; cy = height self / 2;
        turned = map (spec_rotate cx cy speed) (positions self)
    in update ''ccw'' direction speed self = (Inr turned, self\<lparr>positions := turned\<rparr>))
   \<and> (let cx = width self / 2; cy = height self / 2;
        turned = map (spec_rotate cx cy (- speed)) (positions self)
    in update ''cw'' direction speed self = (Inr turned, self\<lparr>positions := turned\<rparr>))
   \<and> update ''cw'' direction speed self = update ''ccw'' direction (- speed) self"
  by (simp add: update_ccw update_cw Let_def)

text \<open>
  Claim C6. For every field and angle \<open>theta\<close>, \<open>update\<close> in mode \<open>ccw\<close> followed by
  \<open>update\<close> in mode \<open>cw\<close> at the same speed restores every position: the second call
  returns the original positions and leaves the original field.
\<close>

theorem rotation_inverse:
  "update ''cw'' direction2 theta (snd (update ''ccw'' direction1 theta self))
     = (Inr (positions self), self)"
  by (simp add: update_ccw update_cw spec_rotate_inverse comp_def)

text \<open>
  Claim C7. For every field, direction \<open>(a, b)\<close> and speed \<open>s\<close>, two successive
  translations at speed \<open>s\<close> give the same result and the same field as one
  translation at speed \<open>2 * s\<close>.
\<close>

theorem translation_additive:
  "update ''translation'' [a, b] s (snd (update ''translation'' [a, b] s self))
     = update ''translation'' [a, b] (2 * s) self"
  by (simp add: update_translation comp_def case_prod_unfold algebra_simps)

text \<open>
  Claim C8. For every field and speed, an update in mode \<open>cw\<close> or \<open>ccw\<close> leaves the
  Euclidean distance of every dot from the centre \<open>(width / 2, height / 2)\<close>
  unchanged, dot by dot.
\<close>

theorem rotation_preserves_center_distance:
  "map (center_distance (snd (update ''cw'' direction speed self)))
       (positions (snd (update ''cw'' direction speed self)))
     = map (center_distance self) (positions self)
   \<and> map (center_distance (snd (update ''ccw'' direction speed self)))
       (positions (snd (update ''ccw'' direction speed self)))
     = map (center_distance self) (positions self)"
  by (simp add: update_ccw update_cw center_distance_def comp_def spec_rotate_distance)

text \<open>
  Claim C9. For every field and every sequence of update calls, in any mode, valid or
  not, and with any direction and speed, the number of dots is the one at the start
  (each a pair of coordinates, by the type of \<open>positions\<close>), and the width and the
  height are unchanged.
\<close>

theorem updates_preserve_shape:
  "length (positions (run_updates calls self)) = length (positions self)
   \<and> width (run_updates calls self) = width self
   \<and> height (run_updates calls self) = height self"
proof (induction calls arbitrary: self)
  case Nil
  show ?case by simp
next
  case (Cons c calls)
  obtain mode d s where c: "c = (mode, d, s)"
    by (cases c) auto
  show ?case
    using Cons.IH [of "snd (update mode d s self)"] update_frame [of mode d s self]
    by (simp add: c)
qed

section \<open>The field without dots\<close>

text \<open>
  Claim C10. For every constructed field whose computed dot count is zero, the
  positions are empty, and every update in mode \<open>translation\<close> (along a direction of
  two components, as the interface has it), \<open>cw\<close> or \<open>ccw\<close> succeeds, returns an
  empty array and leaves the field as it was. The computed count is the truncated
  double product, which is zero whenever the floor of that product is zero
  (\<open>dot_count_floor_zero\<close>).
\<close>

theorem zero_dots:
  assumes "dot_count w h d = Inr 0"
    and "DotField_init w h d rng_arg fresh = Inr self"
  shows "positions self = []
       \<and> update ''translation'' [a, b] s self = (Inr [], self)
       \<and> update ''cw'' direction s self = (Inr [], self)
       \<and> update ''ccw'' direction s self = (Inr [], self)"
proof -
  obtain c where wh: "0 \<le> w" "0 \<le> h" and c: "dot_count w h d = Inr c" "0 \<le> c"
    using assms(2) by (rule DotField_init_Inr)
  have "c = 0"
    using assms(1) c(1) by simp
  then have empty: "positions self = []"
    using assms(2) DotField_init_ok [OF wh c refl refl, of rng_arg fresh] by auto
  then show ?thesis
    by (simp add: update_translation update_cw update_ccw)
qed

theorem zero_dots_witness:
  "dot_count 1 1 (1 / 2) = Inr 0
   \<and> DotField_init 1 1 (1 / 2) None example_rng = Inr empty_field
   \<and> positions empty_field = []
   \<and> update ''translation'' default_direction default_speed empty_field = (Inr [], empty_field)
   \<and> update ''cw'' default_direction default_speed empty_field = (Inr [], empty_field)
   \<and> update ''ccw'' default_direction default_speed empty_field = (Inr [], empty_field)"
  using dot_count_empty empty_init
    zero_dots [where w = 1 and h = 1 and d = "1 / 2" and rng_arg = None and fresh = example_rng
        and self = empty_field and a = 1 and b = 0 and s = default_speed
        and direction = default_direction]
  by (simp add: default_direction_def)

end
